theory Spec2Isabelle
  imports Complex_Main "HOL-Library.AList" "HOL-Library.Sublist"
begin

section \<open>The Tooltip component of components/tooltip/index.tsx\<close>

text \<open>
  A shallow embedding of the function component \<^verbatim>\<open>Tooltip\<close>, of its closures
  (\<^verbatim>\<open>isNoTitle\<close>, \<^verbatim>\<open>onOpenChange\<close>, \<^verbatim>\<open>getTooltipPlacements\<close>,
  \<^verbatim>\<open>onPopupAlign\<close>, \<^verbatim>\<open>getOverlay\<close>) and of the module-level helpers
  \<^verbatim>\<open>splitObject\<close>, \<^verbatim>\<open>PresetColorRegex\<close> and \<^verbatim>\<open>getDisabledCompatibleChildren\<close>.
  The props are modelled at their TypeScript types; the hook state is passed explicitly;
  the callbacks a handler invokes are returned as a list, in the order of the calls.
  The development-time warnings for deprecated props change nothing in what is rendered
  and are left out.
\<close>

subsection \<open>JavaScript values\<close>

text \<open>
  Values that are not React elements. Numbers are idealised as reals (\<open>+0\<close> and \<open>-0\<close>
  are the one value \<open>Num 0\<close>, as \<^verbatim>\<open>===\<close> and truthiness see them) with \<open>NaN\<close> apart;
  a function is opaque and has an identity only.
\<close>

datatype jsval = Undefined | Null | Bool bool | Num real | NaN | Str string | Fn nat

text \<open>\<^verbatim>\<open>ToBoolean\<close>: what \<^verbatim>\<open>!x\<close>, \<^verbatim>\<open>x || y\<close>, \<^verbatim>\<open>x && y\<close> and \<^verbatim>\<open>x ? a : b\<close> test.\<close>

fun truthy :: "jsval \<Rightarrow> bool" where
  "truthy Undefined = False"
| "truthy Null = False"
| "truthy (Bool b) = b"
| "truthy (Num r) = (r \<noteq> 0)"
| "truthy NaN = False"
| "truthy (Str s) = (s \<noteq> [])"
| "truthy (Fn f) = True"

text \<open>\<^verbatim>\<open>a && b\<close> on values: the left operand when it is falsy, the right one otherwise.\<close>

definition js_and :: "jsval \<Rightarrow> jsval \<Rightarrow> jsval" where
  "js_and a b = (if truthy a then b else a)"

text \<open>An optional string prop read as a value, and inside a template literal.\<close>

fun str_val :: "string option \<Rightarrow> jsval" where
  "str_val None = Undefined"
| "str_val (Some s) = Str s"

fun template :: "string option \<Rightarrow> string" where
  "template None = ''undefined''"
| "template (Some s) = s"

text \<open>
  A prop whose presence in the props object is tested with \<^verbatim>\<open>'open' in props\<close>:
  the key can be absent, or present with the value \<^verbatim>\<open>undefined\<close> (\<open>Present None\<close>),
  or present with a value.
\<close>

datatype 'a opt_prop = Absent | Present "'a option"

fun in_props :: "'a opt_prop \<Rightarrow> bool" where
  "in_props Absent = False"
| "in_props (Present v) = True"

fun prop_value :: "'a opt_prop \<Rightarrow> 'a option" where
  "prop_value Absent = None"
| "prop_value (Present v) = v"

subsection \<open>React nodes and elements\<close>

text \<open>
  A style object is a map from property names to values. An element has a type (a host tag,
  \<^verbatim>\<open>React.Fragment\<close>, or a component with its static markers), the props this module
  reads or writes, and \<^verbatim>\<open>props.children\<close>.
\<close>

type_synonym style = "string \<rightharpoonup> jsval"

record component =
  displayName :: string
  ANT_BUTTON :: jsval
  ANT_SWITCH :: jsval
  ANT_RADIO :: jsval

datatype etype = Tag string | Fragment | Component component

record attrs =
  disabled :: jsval
  loading :: jsval
  block :: jsval
  style :: "style option"
  className :: jsval

datatype node = Val jsval | Arr "node list" | Elem element
  and element = Element etype attrs node

fun truthy_node :: "node \<Rightarrow> bool" where
  "truthy_node (Val v) = truthy v"
| "truthy_node (Arr ns) = True"
| "truthy_node (Elem e) = True"

text \<open>\<^verbatim>\<open>a || b\<close> on nodes.\<close>

definition js_or :: "node \<Rightarrow> node \<Rightarrow> node" where
  "js_or a b = (if truthy_node a then a else b)"

text \<open>\<^verbatim>\<open>elementType.__ANT_BUTTON\<close> and its siblings: a property read on the element type.\<close>

fun static_ANT_BUTTON :: "etype \<Rightarrow> jsval" where
  "static_ANT_BUTTON (Component c) = ANT_BUTTON c"
| "static_ANT_BUTTON t = Undefined"

fun static_ANT_SWITCH :: "etype \<Rightarrow> jsval" where
  "static_ANT_SWITCH (Component c) = ANT_SWITCH c"
| "static_ANT_SWITCH t = Undefined"

fun static_ANT_RADIO :: "etype \<Rightarrow> jsval" where
  "static_ANT_RADIO (Component c) = ANT_RADIO c"
| "static_ANT_RADIO t = Undefined"

text \<open>
  Modelled from the spec: \<^verbatim>\<open>isValidElement\<close>, \<^verbatim>\<open>isFragment\<close> and \<^verbatim>\<open>cloneElement\<close> are
  imported from \<^verbatim>\<open>../_util/reactNode\<close>, which is not among the sources; the spec names
  them as the rendering framework's element model (cloning, fragment detection). A node
  is a valid element when it is an element; an element is a fragment when its type is
  \<^verbatim>\<open>React.Fragment\<close>; cloning keeps the type and the children and overrides the props
  given (here as an update of the props record).
\<close>

fun isValidElement :: "node \<Rightarrow> bool" where
  "isValidElement (Elem e) = True"
| "isValidElement n = False"

fun isFragment :: "element \<Rightarrow> bool" where
  "isFragment (Element t a c) = (t = Fragment)"

fun cloneElement :: "element \<Rightarrow> (attrs \<Rightarrow> attrs) \<Rightarrow> element" where
  "cloneElement (Element t a c) f = Element t (f a) c"

fun props_of :: "element \<Rightarrow> attrs" where
  "props_of (Element t a c) = a"

text \<open>The props of a JSX element that names none of them.\<close>

definition no_attrs :: attrs where
  "no_attrs = \<lparr>disabled = Undefined, loading = Undefined, block = Undefined,
               style = None, className = Undefined\<rparr>"

subsection \<open>Imports that are not among the sources\<close>

text \<open>
  The conversion of a number to a string (template literals, \<^verbatim>\<open>Array.prototype.join\<close>),
  the constant \<^verbatim>\<open>PresetColorTypes\<close> of \<^verbatim>\<open>../_util/colors\<close>, \<^verbatim>\<open>getPlacements\<close> of
  \<^verbatim>\<open>../_util/placements\<close> and \<^verbatim>\<open>getTransitionName\<close> of \<^verbatim>\<open>../_util/motion\<close> are
  parameters of the model. The preset tokens are plain words, which the regular
  expression built from them matches literally.
\<close>

datatype TooltipPlacement =
    P_top | P_left | P_right | P_bottom
  | P_topLeft | P_topRight | P_bottomLeft | P_bottomRight
  | P_leftTop | P_leftBottom | P_rightTop | P_rightBottom


text \<open>
  A placement table (\<^verbatim>\<open>typeof Placements\<close>): the entries in the order of
  \<^verbatim>\<open>Object.keys\<close>, each with its alignment points.
\<close>

record placement_config =
  points :: "string list"

type_synonym placements = "(TooltipPlacement \<times> placement_config) list"

datatype AdjustOverflow = AdjustFlag bool | AdjustAxes bool bool

record env =
  numstr :: "real \<Rightarrow> string"
  PresetColorTypes :: "string list"
  getPlacements :: "bool option \<Rightarrow> AdjustOverflow option \<Rightarrow> placements"
  getTransitionName :: "string \<Rightarrow> string \<Rightarrow> string option \<Rightarrow> string"

text \<open>The value of \<^verbatim>\<open>React.useContext(ConfigContext)\<close>.\<close>

record config_consumer =
  ctx_getPopupContainer :: "nat option"
  getPrefixCls :: "string option \<Rightarrow> string option \<Rightarrow> string"
  direction :: "string option"

subsection \<open>The package classnames\<close>

text \<open>
  \<^verbatim>\<open>classNames(...args)\<close> is imported from the package classnames. As that package
  documents it, and as far as the three calls of this module go: a falsy argument is
  skipped, a string or a number is taken as it is, an object contributes its keys whose
  values are truthy, in the order of the keys, any other value contributes nothing, and
  the result is joined with single spaces. An object literal with computed keys is built
  with \<open>AList.update\<close>, so that a key written twice keeps its first place and its last
  value.
\<close>

datatype cn_arg = CnVal jsval | CnObj "(string \<times> jsval) list"

fun cn_tokens :: "env \<Rightarrow> cn_arg \<Rightarrow> string list" where
  "cn_tokens E (CnVal (Str s)) = (if s = [] then [] else [s])"
| "cn_tokens E (CnVal (Num r)) = (if r = 0 then [] else [numstr E r])"
| "cn_tokens E (CnVal v) = []"
| "cn_tokens E (CnObj kvs) = map fst (filter (\<lambda>kv. truthy (snd kv)) kvs)"

fun join_space :: "string list \<Rightarrow> string" where
  "join_space [] = []"
| "join_space [x] = x"
| "join_space (x # y # zs) = x @ '' '' @ join_space (y # zs)"

definition classNames_tokens :: "env \<Rightarrow> cn_arg list \<Rightarrow> string list" where
  "classNames_tokens E args = concat (map (cn_tokens E) args)"

definition classNames :: "env \<Rightarrow> cn_arg list \<Rightarrow> string" where
  "classNames E args = join_space (classNames_tokens E args)"

subsection \<open>The props of Tooltip\<close>

text \<open>
  The props the component reads. A callback or container function is known by its
  identity, a \<open>nat\<close>. The props the component never reads (\<^verbatim>\<open>placement\<close>, the
  delays, ...) reach the popup primitive through the spread, unchanged, and are not
  listed.
\<close>

record props =
  title :: node
  overlay :: node
  open_prop :: "bool opt_prop"
  visible :: "bool opt_prop"
  defaultOpen :: "bool option"
  defaultVisible :: "bool option"
  onOpenChange :: "nat option"
  onVisibleChange :: "nat option"
  afterOpenChange :: "nat option"
  afterVisibleChange :: "nat option"
  builtinPlacements :: "placements option"
  arrowPointAtCenter :: "bool option"
  autoAdjustOverflow :: "AdjustOverflow option"
  prefixCls :: "string option"
  openClassName :: "string option"
  getPopupContainer :: "nat option"
  getTooltipContainer :: "nat option"
  overlayClassName :: "string option"
  color :: "string option"
  overlayInnerStyle :: "style option"
  transitionName :: "string option"
  children :: node

subsection \<open>splitObject and PresetColorRegex\<close>

text \<open>
  \<^verbatim>\<open>splitObject(obj, keys)\<close>: \<open>picked\<close> starts empty, \<open>omitted\<close> starts as a copy of
  \<open>obj\<close> (empty when \<open>obj\<close> is undefined), and each key that is in \<open>obj\<close> moves from the
  second to the first.
\<close>

definition splitObject_step :: "style option \<Rightarrow> string \<Rightarrow> style \<times> style \<Rightarrow> style \<times> style" where
  "splitObject_step obj key po =
     (case obj of
        None \<Rightarrow> po
      | Some ob \<Rightarrow>
          (if key \<in> dom ob then ((fst po)(key := ob key), (snd po)(key := None)) else po))"

definition splitObject :: "style option \<Rightarrow> string list \<Rightarrow> style \<times> style" where
  "splitObject obj keys =
     fold (splitObject_step obj) keys
       (Map.empty, (case obj of None \<Rightarrow> Map.empty | Some ob \<Rightarrow> ob))"

text \<open>
  \<^verbatim>\<open>new RegExp(`^(${PresetColorTypes.join('|')})(-inverse)?$`).test(color)\<close>: the whole
  string is one of the tokens, or one of them followed by \<^verbatim>\<open>-inverse\<close>.
\<close>

definition PresetColorRegex_test :: "env \<Rightarrow> string \<Rightarrow> bool" where
  "PresetColorRegex_test E c =
     (c \<in> set (PresetColorTypes E) \<or>
      c \<in> set (map (\<lambda>t. t @ ''-inverse'') (PresetColorTypes E)))"

subsection \<open>getDisabledCompatibleChildren\<close>

definition layout_keys :: "string list" where
  "layout_keys = [''position'', ''left'', ''right'', ''top'', ''bottom'', ''float'',
                  ''display'', ''zIndex'']"

fun is_disabled_control :: "element \<Rightarrow> bool" where
  "is_disabled_control (Element t a c) =
     (((static_ANT_BUTTON t = Bool True \<or> t = Tag ''button'') \<and> truthy (disabled a)) \<or>
      (static_ANT_SWITCH t = Bool True \<and> (truthy (disabled a) \<or> truthy (loading a))) \<or>
      (static_ANT_RADIO t = Bool True \<and> truthy (disabled a)))"

definition spanStyle :: "element \<Rightarrow> style" where
  "spanStyle element =
     (let picked = fst (splitObject (style (props_of element)) layout_keys) in
      (([''display'' \<mapsto> Str ''inline-block''] ++ picked)
         (''cursor'' \<mapsto> Str ''not-allowed''))
         (''width'' \<mapsto> (if truthy (block (props_of element)) then Str ''100%'' else Null)))"

definition buttonStyle :: "element \<Rightarrow> style" where
  "buttonStyle element =
     (let omitted = snd (splitObject (style (props_of element)) layout_keys) in
      omitted(''pointerEvents'' \<mapsto> Str ''none''))"

definition getDisabledCompatibleChildren :: "env \<Rightarrow> element \<Rightarrow> string \<Rightarrow> element" where
  "getDisabledCompatibleChildren E element prefixCls' =
     (if is_disabled_control element then
        (let child = cloneElement element
                       (\<lambda>a. a\<lparr>style := Some (buttonStyle element), className := Null\<rparr>)
         in Element (Tag ''span'')
              (no_attrs\<lparr>style := Some (spanStyle element),
                        className := Str (classNames E
                          [CnVal (className (props_of element)),
                           CnVal (Str (prefixCls' @ ''-disabled-compatible-wrapper''))])\<rparr>)
              (Elem child))
      else element)"

subsection \<open>The open state\<close>

text \<open>
  Modelled from the spec: \<^verbatim>\<open>useMergedState\<close> is imported from the package rc-util and is
  not among the sources. The spec: "merge controlled/uncontrolled visibility following
  standard controlled-component precedence (explicit value prop > explicit default-value
  prop > internal default \<^verbatim>\<open>false\<close>)". The state kept by the hook is initialised by
  that precedence at mount; the value the hook returns is the controlled value when
  there is one and the state otherwise; \<^verbatim>\<open>setOpen\<close> replaces the state.
\<close>

definition useMergedState_initial :: "bool \<Rightarrow> bool option \<Rightarrow> bool option \<Rightarrow> bool" where
  "useMergedState_initial defaultStateValue val defaultValue =
     (case val of
        Some v \<Rightarrow> v
      | None \<Rightarrow> (case defaultValue of Some d \<Rightarrow> d | None \<Rightarrow> defaultStateValue))"

definition useMergedState :: "bool option \<Rightarrow> bool \<Rightarrow> bool" where
  "useMergedState val innerValue = (case val of Some v \<Rightarrow> v | None \<Rightarrow> innerValue)"

text \<open>
  The two options passed to the hook:
  \<^verbatim>\<open>value: props.open !== undefined ? props.open : props.visible\<close> and
  \<^verbatim>\<open>defaultValue: props.defaultOpen !== undefined ? props.defaultOpen : props.defaultVisible\<close>.
\<close>

definition merged_value :: "props \<Rightarrow> bool option" where
  "merged_value p =
     (if prop_value (open_prop p) \<noteq> None then prop_value (open_prop p)
      else prop_value (visible p))"

definition merged_defaultValue :: "props \<Rightarrow> bool option" where
  "merged_defaultValue p =
     (if defaultOpen p \<noteq> None then defaultOpen p else defaultVisible p)"

text \<open>The state at mount, and \<^verbatim>\<open>open\<close> of \<^verbatim>\<open>const [open, setOpen]\<close> in a render.\<close>

definition Tooltip_mount :: "props \<Rightarrow> bool" where
  "Tooltip_mount p = useMergedState_initial False (merged_value p) (merged_defaultValue p)"

definition Tooltip_open :: "props \<Rightarrow> bool \<Rightarrow> bool" where
  "Tooltip_open p innerValue = useMergedState (merged_value p) innerValue"

definition isNoTitle :: "props \<Rightarrow> bool" where
  "isNoTitle p =
     (\<not> truthy_node (title p) \<and> \<not> truthy_node (overlay p) \<and> title p \<noteq> Val (Num 0))"

text \<open>
  \<^verbatim>\<open>onOpenChange(vis)\<close>: the new state written by \<^verbatim>\<open>setOpen\<close>, and the calls made, in
  order. \<^verbatim>\<open>f?.(vis)\<close> calls \<open>f\<close> when the prop is given.
\<close>

datatype call = Call nat bool

fun optional_call :: "nat option \<Rightarrow> bool \<Rightarrow> call list" where
  "optional_call None vis = []"
| "optional_call (Some f) vis = [Call f vis]"

definition Tooltip_onOpenChange :: "props \<Rightarrow> bool \<Rightarrow> bool \<times> call list" where
  "Tooltip_onOpenChange p vis =
     ((if isNoTitle p then False else vis),
      (if \<not> isNoTitle p
       then optional_call (onOpenChange p) vis @ optional_call (onVisibleChange p) vis
       else []))"

definition tempOpen :: "props \<Rightarrow> bool \<Rightarrow> bool" where
  "tempOpen p innerValue =
     (if \<not> in_props (open_prop p) \<and> \<not> in_props (visible p) \<and> isNoTitle p then False
      else Tooltip_open p innerValue)"

subsection \<open>Placements and the transform origin\<close>

definition getTooltipPlacements :: "env \<Rightarrow> props \<Rightarrow> placements" where
  "getTooltipPlacements E p =
     (case builtinPlacements p of
        Some t \<Rightarrow> t
      | None \<Rightarrow> getPlacements E (arrowPointAtCenter p) (autoAdjustOverflow p))"











subsection \<open>The render\<close>

definition getOverlay :: "props \<Rightarrow> node" where
  "getOverlay p =
     (if title p = Val (Num 0) then title p
      else js_or (js_or (overlay p) (title p)) (Val (Str [])))"

text \<open>
  \<^verbatim>\<open>isValidElement(children) && !isFragment(children) ? children : <span>{children}</span>\<close>,
  the element handed to \<^verbatim>\<open>getDisabledCompatibleChildren\<close>.
\<close>

definition children_element :: "node \<Rightarrow> element" where
  "children_element ch =
     (case ch of
        Elem e \<Rightarrow> (if \<not> isFragment e then e else Element (Tag ''span'') no_attrs ch)
      | _ \<Rightarrow> Element (Tag ''span'') no_attrs ch)"

fun is_string :: "jsval \<Rightarrow> bool" where
  "is_string (Str s) = True"
| "is_string v = False"

definition open_class :: "props \<Rightarrow> string \<Rightarrow> string" where
  "open_class p prefixCls' =
     (case openClassName p of
        None \<Rightarrow> prefixCls' @ ''-open''
      | Some s \<Rightarrow> (if s \<noteq> [] then s else prefixCls' @ ''-open''))"

definition childCls :: "env \<Rightarrow> props \<Rightarrow> string \<Rightarrow> element \<Rightarrow> jsval" where
  "childCls E p prefixCls' child =
     (let cn = className (props_of child) in
      if \<not> truthy cn \<or> is_string cn
      then Str (classNames E [CnVal cn, CnObj (AList.update (open_class p prefixCls') (Bool True) [])])
      else cn)"

definition overlay_class_object :: "env \<Rightarrow> config_consumer \<Rightarrow> props \<Rightarrow> string \<Rightarrow> (string \<times> jsval) list" where
  "overlay_class_object E ctx p prefixCls' =
     AList.update (prefixCls' @ ''-'' @ template (color p))
       (js_and (str_val (color p)) (Bool (PresetColorRegex_test E (template (color p)))))
       (AList.update (prefixCls' @ ''-rtl'') (Bool (direction ctx = Some ''rtl'')) [])"

definition customOverlayClassName :: "env \<Rightarrow> config_consumer \<Rightarrow> props \<Rightarrow> string \<Rightarrow> string" where
  "customOverlayClassName E ctx p prefixCls' =
     classNames E [CnVal (str_val (overlayClassName p)),
                   CnObj (overlay_class_object E ctx p prefixCls')]"

definition custom_color :: "env \<Rightarrow> props \<Rightarrow> bool" where
  "custom_color E p =
     (truthy (str_val (color p)) \<and> \<not> PresetColorRegex_test E (template (color p)))"

definition formattedOverlayInnerStyle :: "env \<Rightarrow> props \<Rightarrow> style option" where
  "formattedOverlayInnerStyle E p =
     (if custom_color E p
      then Some ((case overlayInnerStyle p of None \<Rightarrow> Map.empty | Some s \<Rightarrow> s)
                   (''background'' \<mapsto> str_val (color p)))
      else overlayInnerStyle p)"

definition arrowContentStyle :: "env \<Rightarrow> props \<Rightarrow> style option" where
  "arrowContentStyle E p =
     (if custom_color E p
      then Some [''--antd-arrow-background-color'' \<mapsto> str_val (color p)]
      else None)"

fun first_given :: "nat option \<Rightarrow> nat option \<Rightarrow> nat option" where
  "first_given (Some f) g = Some f"
| "first_given None g = g"

record motion =
  motionName :: string
  motionDeadline :: nat

text \<open>
  The props the component passes to \<^verbatim>\<open>RcTooltip\<close>. \<open>otherProps\<close> is the spread
  \<^verbatim>\<open>{...otherProps}\<close>: every prop of the component but \<^verbatim>\<open>getPopupContainer\<close>, under
  its own name. The other fields are the attributes written after the spread, which
  override a prop of the same name; \<^verbatim>\<open>onVisibleChange\<close> and \<^verbatim>\<open>onPopupAlign\<close> among
  them receive the closures modelled by \<open>Tooltip_onOpenChange\<close> and
  \<open>Tooltip_onPopupAlign\<close>.
\<close>

record rc_tooltip_props =
  otherProps :: props
  rc_prefixCls :: string
  rc_overlayClassName :: string
  rc_getTooltipContainer :: "nat option"
  rc_ref :: "nat option"
  rc_builtinPlacements :: placements
  rc_overlay :: node
  rc_visible :: bool
  rc_overlayInnerStyle :: "style option"
  rc_arrowContent :: element
  rc_motion :: motion
  rc_children :: element

definition Tooltip :: "env \<Rightarrow> config_consumer \<Rightarrow> props \<Rightarrow> nat option \<Rightarrow> bool \<Rightarrow> rc_tooltip_props" where
  "Tooltip E ctx p ref innerValue =
     (let prefixCls' = getPrefixCls ctx (Some ''tooltip'') (prefixCls p);
          rootPrefixCls = getPrefixCls ctx None None;
          tempOpen' = tempOpen p innerValue;
          child = getDisabledCompatibleChildren E (children_element (children p)) prefixCls'
      in \<lparr>otherProps = p\<lparr>getPopupContainer := None\<rparr>,
          rc_prefixCls = prefixCls',
          rc_overlayClassName = customOverlayClassName E ctx p prefixCls',
          rc_getTooltipContainer =
            first_given (getPopupContainer p)
              (first_given (getTooltipContainer p) (ctx_getPopupContainer ctx)),
          rc_ref = ref,
          rc_builtinPlacements = getTooltipPlacements E p,
          rc_overlay = getOverlay p,
          rc_visible = tempOpen',
          rc_overlayInnerStyle = formattedOverlayInnerStyle E p,
          rc_arrowContent =
            Element (Tag ''span'')
              (no_attrs\<lparr>className := Str (prefixCls' @ ''-arrow-content''),
                        style := arrowContentStyle E p\<rparr>)
              (Val Undefined),
          rc_motion =
            \<lparr>motionName = getTransitionName E rootPrefixCls ''zoom-big-fast'' (transitionName p),
             motionDeadline = 1000\<rparr>,
          rc_children =
            (if tempOpen'
             then cloneElement child (\<lambda>a. a\<lparr>className := childCls E p prefixCls' child\<rparr>)
             else child)\<rparr>)"

text \<open>
  The after-change callback that reaches \<^verbatim>\<open>RcTooltip\<close>. Its prop types are imported as
  \<^verbatim>\<open>RcTooltipProps['afterVisibleChange']\<close>: the primitive reads the prop of that name.
  No attribute after the spread sets it, so it is the one of \<open>otherProps\<close>.
\<close>

definition rc_afterVisibleChange :: "rc_tooltip_props \<Rightarrow> nat option" where
  "rc_afterVisibleChange r = afterVisibleChange (otherProps r)"

subsection \<open>Sample values\<close>

text \<open>
  Concrete values at which the theorems below are instantiated: a props object with no
  key but \<^verbatim>\<open>children\<close>, the default context of the configuration provider, the
  palette of preset colours, the twelve built-in placements, and a number printer for
  integers.
\<close>

definition bare_props :: props where
  "bare_props =
     \<lparr>title = Val Undefined, overlay = Val Undefined,
      open_prop = Absent, visible = Absent,
      defaultOpen = None, defaultVisible = None,
      onOpenChange = None, onVisibleChange = None,
      afterOpenChange = None, afterVisibleChange = None,
      builtinPlacements = None, arrowPointAtCenter = None, autoAdjustOverflow = None,
      prefixCls = None, openClassName = None,
      getPopupContainer = None, getTooltipContainer = None,
      overlayClassName = None, color = None, overlayInnerStyle = None,
      transitionName = None,
      children = Val (Str ''hover me'')\<rparr>"

fun show_nat :: "nat \<Rightarrow> string" where
  "show_nat n =
     (if n < 10 then [''0123456789'' ! n]
      else show_nat (n div 10) @ [''0123456789'' ! (n mod 10)])"

declare show_nat.simps [simp del]

definition show_real :: "real \<Rightarrow> string" where
  "show_real r =
     (if r < 0 then ''-'' @ show_nat (nat \<lfloor>- r\<rfloor>) else show_nat (nat \<lfloor>r\<rfloor>))"

definition sample_placements :: placements where
  "sample_placements =
     [(P_left, \<lparr>points = [''cr'', ''cl'']\<rparr>),
      (P_right, \<lparr>points = [''cl'', ''cr'']\<rparr>),
      (P_top, \<lparr>points = [''bc'', ''tc'']\<rparr>),
      (P_bottom, \<lparr>points = [''tc'', ''bc'']\<rparr>),
      (P_topLeft, \<lparr>points = [''bl'', ''tl'']\<rparr>),
      (P_leftTop, \<lparr>points = [''tr'', ''tl'']\<rparr>),
      (P_topRight, \<lparr>points = [''br'', ''tr'']\<rparr>),
      (P_rightTop, \<lparr>points = [''tl'', ''tr'']\<rparr>),
      (P_bottomRight, \<lparr>points = [''tr'', ''br'']\<rparr>),
      (P_rightBottom, \<lparr>points = [''bl'', ''br'']\<rparr>),
      (P_bottomLeft, \<lparr>points = [''tl'', ''bl'']\<rparr>),
      (P_leftBottom, \<lparr>points = [''br'', ''bl'']\<rparr>)]"

definition sample_env :: env where
  "sample_env =
     \<lparr>numstr = show_real,
      PresetColorTypes =
        [''pink'', ''red'', ''yellow'', ''orange'', ''cyan'', ''green'', ''blue'', ''purple'',
         ''geekblue'', ''magenta'', ''volcano'', ''gold'', ''lime''],
      getPlacements = (\<lambda>arrow adjust. sample_placements),
      getTransitionName =
        (\<lambda>root motion' name. case name of Some n \<Rightarrow> n | None \<Rightarrow> root @ ''-'' @ motion')\<rparr>"

definition sample_ctx :: config_consumer where
  "sample_ctx =
     \<lparr>ctx_getPopupContainer = None,
      getPrefixCls =
        (\<lambda>suffix custom.
           case custom of
             Some c \<Rightarrow> c
           | None \<Rightarrow> (case suffix of Some s \<Rightarrow> ''ant-'' @ s | None \<Rightarrow> ''ant'')),
      direction = None\<rparr>"

definition disabled_button :: element where
  "disabled_button =
     Element (Tag ''button'')
       (no_attrs\<lparr>disabled := Bool True,
                 style := Some [''position'' \<mapsto> Str ''absolute'', ''color'' \<mapsto> Str ''red'']\<rparr>)
       (Val (Str ''Save''))"

section \<open>Properties\<close>

subsection \<open>What the render passes on\<close>

lemma rc_visible_Tooltip: "rc_visible (Tooltip E ctx p r i) = tempOpen p i"
  by (simp add: Tooltip_def Let_def)

lemma rc_overlay_Tooltip: "rc_overlay (Tooltip E ctx p r i) = getOverlay p"
  by (simp add: Tooltip_def Let_def)

subsection \<open>The open state passed to the popup primitive\<close>

text \<open>
  Claim C1, as stated, fails: with no title and no overlay, a controlled \<^verbatim>\<open>open\<close> of
  \<^verbatim>\<open>true\<close> reaches the popup primitive as \<^verbatim>\<open>visible = true\<close>. The guard
  \<^verbatim>\<open>!('open' in props) && !('visible' in props) && isNoTitle()\<close> forces the state
  closed only when neither key is in the props.
\<close>

theorem C1_controlled_open_counterexample:
  "title (bare_props\<lparr>open_prop := Present (Some True)\<rparr>) = Val Undefined \<and>
   overlay (bare_props\<lparr>open_prop := Present (Some True)\<rparr>) = Val Undefined \<and>
   rc_visible (Tooltip sample_env sample_ctx
                 (bare_props\<lparr>open_prop := Present (Some True)\<rparr>) None False) = True"
  by (simp add: rc_visible_Tooltip tempOpen_def Tooltip_open_def useMergedState_def
      merged_value_def bare_props_def)

text \<open>
  Claim C1, amended: when title and overlay are both absent (falsy) and the title is
  not the literal 0, the open state passed to the popup primitive is \<^verbatim>\<open>false\<close> for
  every internal state, provided that neither \<^verbatim>\<open>open\<close> nor \<^verbatim>\<open>visible\<close> is a key of
  the props; when one of them is a key, the state passed is the merged one: the value of
  \<^verbatim>\<open>open\<close>, else the value of \<^verbatim>\<open>visible\<close>, else the internal state.
\<close>

theorem C1_forced_closed_when_uncontrolled:
  assumes "\<not> truthy_node (title p)" and "\<not> truthy_node (overlay p)"
    and "title p \<noteq> Val (Num 0)"
  shows "rc_visible (Tooltip E ctx p r i) =
     (if in_props (open_prop p) \<or> in_props (visible p)
      then (case prop_value (open_prop p) of
              Some b \<Rightarrow> b
            | None \<Rightarrow> (case prop_value (visible p) of Some b \<Rightarrow> b | None \<Rightarrow> i))
      else False)"
  using assms
  by (auto simp add: rc_visible_Tooltip tempOpen_def isNoTitle_def Tooltip_open_def
      useMergedState_def merged_value_def split: option.splits)

theorem C1_forced_closed_witness:
  "rc_visible (Tooltip sample_env sample_ctx bare_props None True) = False \<and>
   rc_visible (Tooltip sample_env sample_ctx
                 (bare_props\<lparr>visible := Present (Some True)\<rparr>) None False) = True"
  using C1_forced_closed_when_uncontrolled [of bare_props sample_env sample_ctx None True]
    C1_forced_closed_when_uncontrolled
      [of "bare_props\<lparr>visible := Present (Some True)\<rparr>" sample_env sample_ctx None False]
  by (simp add: bare_props_def)

subsection \<open>The content payload\<close>

text \<open>
  Claim C2, as stated, fails: with a title and an overlay both supplied, the payload
  rendered is the overlay, since \<^verbatim>\<open>getOverlay\<close> returns \<^verbatim>\<open>overlay || title || ''\<close>.
\<close>

theorem C2_overlay_wins_counterexample:
  "title (bare_props\<lparr>title := Val (Str ''T''), overlay := Val (Str ''O'')\<rparr>) = Val (Str ''T'') \<and>
   overlay (bare_props\<lparr>title := Val (Str ''T''), overlay := Val (Str ''O'')\<rparr>) = Val (Str ''O'') \<and>
   rc_overlay (Tooltip sample_env sample_ctx
       (bare_props\<lparr>title := Val (Str ''T''), overlay := Val (Str ''O'')\<rparr>) None False)
     = Val (Str ''O'')"
  by (simp add: rc_overlay_Tooltip getOverlay_def js_or_def bare_props_def)

text \<open>
  Claim C2, amended: when the title is not the literal 0, the payload rendered into the
  overlay is the overlay prop when that is truthy, the title when the overlay is falsy
  and the title truthy, and the empty string when both are falsy: the legacy overlay
  takes precedence over the title.
\<close>

theorem C2_overlay_then_title:
  assumes "title p \<noteq> Val (Num 0)"
  shows "rc_overlay (Tooltip E ctx p r i) =
     (if truthy_node (overlay p) then overlay p
      else if truthy_node (title p) then title p
      else Val (Str []))"
  using assms by (simp add: rc_overlay_Tooltip getOverlay_def js_or_def)

theorem C2_overlay_then_title_witness:
  "rc_overlay (Tooltip sample_env sample_ctx
       (bare_props\<lparr>title := Val (Str ''T''), overlay := Val (Str ''O'')\<rparr>) None False)
     = Val (Str ''O'') \<and>
   rc_overlay (Tooltip sample_env sample_ctx
       (bare_props\<lparr>title := Val (Str ''T''), overlay := Val (Bool False)\<rparr>) None False)
     = Val (Str ''T'')"
  using C2_overlay_then_title
      [of "bare_props\<lparr>title := Val (Str ''T''), overlay := Val (Str ''O'')\<rparr>"
          sample_env sample_ctx None False]
    C2_overlay_then_title
      [of "bare_props\<lparr>title := Val (Str ''T''), overlay := Val (Bool False)\<rparr>"
          sample_env sample_ctx None False]
  by (simp add: bare_props_def)

text \<open>
  Claim C3, as stated for the payload, fails when the 0 is given as the legacy overlay
  prop: with no title and the overlay the literal 0 the content counts as absent, an
  uncontrolled tooltip is forced closed whatever its state, and the payload rendered is
  the empty string.
\<close>

theorem C3_zero_overlay_counterexample:
  "title (bare_props\<lparr>overlay := Val (Num 0)\<rparr>) = Val Undefined \<and>
   overlay (bare_props\<lparr>overlay := Val (Num 0)\<rparr>) = Val (Num 0) \<and>
   isNoTitle (bare_props\<lparr>overlay := Val (Num 0)\<rparr>) \<and>
   rc_visible (Tooltip sample_env sample_ctx (bare_props\<lparr>overlay := Val (Num 0)\<rparr>) None True)
     = False \<and>
   rc_overlay (Tooltip sample_env sample_ctx (bare_props\<lparr>overlay := Val (Num 0)\<rparr>) None True)
     = Val (Str [])"
  by (simp add: rc_visible_Tooltip rc_overlay_Tooltip tempOpen_def isNoTitle_def getOverlay_def
      js_or_def bare_props_def)

text \<open>
  Claim C3, amended: the literal 0 given as the title is content. The overlay rendered
  is the literal 0 exactly when the title is the literal 0. With the title the literal
  0, \<^verbatim>\<open>isNoTitle\<close> is false, the open state passed to the popup primitive is the
  merged open state (it is not forced closed), and the overlay rendered is 0, whatever
  the overlay prop is. A 0 given as the overlay prop only (the title falsy and not 0) is
  absent content: \<^verbatim>\<open>isNoTitle\<close> is true, the overlay rendered is the empty string,
  and the open state passed is \<^verbatim>\<open>false\<close> when neither \<^verbatim>\<open>open\<close> nor
  \<^verbatim>\<open>visible\<close> is a key of the props.
\<close>

theorem C3_zero_title_is_content:
  "(rc_overlay (Tooltip E ctx p r i) = Val (Num 0) \<longleftrightarrow> title p = Val (Num 0)) \<and>
   (title p = Val (Num 0) \<longrightarrow>
      \<not> isNoTitle p \<and>
      rc_visible (Tooltip E ctx p r i) = Tooltip_open p i \<and>
      rc_overlay (Tooltip E ctx p r i) = Val (Num 0)) \<and>
   (\<not> truthy_node (title p) \<and> title p \<noteq> Val (Num 0) \<and> overlay p = Val (Num 0) \<longrightarrow>
      isNoTitle p \<and>
      rc_overlay (Tooltip E ctx p r i) = Val (Str []) \<and>
      (\<not> in_props (open_prop p) \<and> \<not> in_props (visible p) \<longrightarrow>
         rc_visible (Tooltip E ctx p r i) = False))"
proof -
  have "getOverlay p \<noteq> Val (Num 0)" if "title p \<noteq> Val (Num 0)"
  proof -
    have "truthy_node n \<Longrightarrow> n \<noteq> Val (Num 0)" for n
      by auto
    with that show ?thesis
      by (simp add: getOverlay_def js_or_def)
  qed
  moreover have "getOverlay p = Val (Num 0)" if "title p = Val (Num 0)"
    using that by (simp add: getOverlay_def)
  moreover have "getOverlay p = Val (Str [])"
    if "\<not> truthy_node (title p)" and "title p \<noteq> Val (Num 0)" and "overlay p = Val (Num 0)"
    using that by (simp add: getOverlay_def js_or_def)
  ultimately show ?thesis
    by (auto simp add: rc_visible_Tooltip rc_overlay_Tooltip tempOpen_def isNoTitle_def)
qed

theorem C3_zero_title_witness:
  "\<not> isNoTitle (bare_props\<lparr>title := Val (Num 0)\<rparr>) \<and>
   rc_visible (Tooltip sample_env sample_ctx (bare_props\<lparr>title := Val (Num 0)\<rparr>) None True) = True \<and>
   rc_overlay (Tooltip sample_env sample_ctx (bare_props\<lparr>title := Val (Num 0)\<rparr>) None True)
     = Val (Num 0) \<and>
   isNoTitle (bare_props\<lparr>overlay := Val (Num 0)\<rparr>) \<and>
   rc_overlay (Tooltip sample_env sample_ctx (bare_props\<lparr>overlay := Val (Num 0)\<rparr>) None True)
     = Val (Str []) \<and>
   rc_visible (Tooltip sample_env sample_ctx (bare_props\<lparr>overlay := Val (Num 0)\<rparr>) None True)
     = False"
  using C3_zero_title_is_content
      [of sample_env sample_ctx "bare_props\<lparr>title := Val (Num 0)\<rparr>" None True]
    C3_zero_title_is_content
      [of sample_env sample_ctx "bare_props\<lparr>overlay := Val (Num 0)\<rparr>" None True]
  by (simp add: bare_props_def Tooltip_open_def useMergedState_def merged_value_def)

subsection \<open>Visibility changes\<close>



text \<open>
  For three of the four pairs the modern member wins. The controlled value given to the
  hook is
  \<^verbatim>\<open>open\<close> when that is not undefined and \<^verbatim>\<open>visible\<close> otherwise, so with both given
  the open state is the one of \<^verbatim>\<open>open\<close>; the default given to the hook is
  \<^verbatim>\<open>defaultOpen\<close> when that is not undefined and \<^verbatim>\<open>defaultVisible\<close> otherwise, so
  an uncontrolled component mounts with the one of \<^verbatim>\<open>defaultOpen\<close>; and on a change
  with content present both callbacks are called, the modern one first.
\<close>

theorem modern_member_wins:
  "(prop_value (open_prop p) = Some a \<longrightarrow>
      merged_value p = Some a \<and> Tooltip_open p i = a \<and> Tooltip_mount p = a) \<and>
   (prop_value (open_prop p) = None \<longrightarrow> merged_value p = prop_value (visible p)) \<and>
   (defaultOpen p = Some d \<longrightarrow>
      merged_defaultValue p = Some d \<and> (merged_value p = None \<longrightarrow> Tooltip_mount p = d)) \<and>
   (defaultOpen p = None \<longrightarrow> merged_defaultValue p = defaultVisible p) \<and>
   (\<not> isNoTitle p \<and> onOpenChange p = Some f \<and> onVisibleChange p = Some g \<longrightarrow>
      snd (Tooltip_onOpenChange p v) = [Call f v, Call g v])"
  by (auto simp add: merged_value_def merged_defaultValue_def Tooltip_open_def Tooltip_mount_def
      useMergedState_def useMergedState_initial_def Tooltip_onOpenChange_def)

theorem modern_member_wins_witness:
  "Tooltip_open (bare_props\<lparr>open_prop := Present (Some True), visible := Present (Some False)\<rparr>)
     False = True \<and>
   Tooltip_mount (bare_props\<lparr>defaultOpen := Some True, defaultVisible := Some False\<rparr>) = True \<and>
   snd (Tooltip_onOpenChange
          (bare_props\<lparr>title := Val (Str ''hi''), onOpenChange := Some 1, onVisibleChange := Some 2\<rparr>)
          True)
     = [Call 1 True, Call 2 True]"
  using modern_member_wins
      [where p = "bare_props\<lparr>open_prop := Present (Some True), visible := Present (Some False)\<rparr>"
         and a = True and i = False]
    modern_member_wins
      [where p = "bare_props\<lparr>defaultOpen := Some True, defaultVisible := Some False\<rparr>"
         and d = True]
    modern_member_wins
      [where p = "bare_props\<lparr>title := Val (Str ''hi''), onOpenChange := Some 1,
                             onVisibleChange := Some 2\<rparr>"
         and f = 1 and g = 2 and v = True]
  by (simp add: bare_props_def isNoTitle_def merged_value_def)

text \<open>
  Claim C5 does not hold for the pair \<^verbatim>\<open>afterVisibleChange\<close> / \<^verbatim>\<open>afterOpenChange\<close>:
  with both supplied, the callback that reaches the popup primitive's
  \<^verbatim>\<open>afterVisibleChange\<close> is the deprecated one, and the modern one is wired to
  nothing. The component reads neither prop; both go through the spread under their own
  names.
\<close>

theorem C5_after_callbacks_legacy_wins:
  "rc_afterVisibleChange (Tooltip sample_env sample_ctx
      (bare_props\<lparr>title := Val (Str ''hi''), afterOpenChange := Some 1,
                   afterVisibleChange := Some 2\<rparr>) None False) = Some 2 \<and>
   afterOpenChange (otherProps (Tooltip sample_env sample_ctx
      (bare_props\<lparr>title := Val (Str ''hi''), afterOpenChange := Some 1,
                   afterVisibleChange := Some 2\<rparr>) None False)) = Some 1"
  by (simp add: rc_afterVisibleChange_def Tooltip_def Let_def bare_props_def)

text \<open>
  Claim C6 does not hold for the pair \<^verbatim>\<open>afterVisibleChange\<close> / \<^verbatim>\<open>afterOpenChange\<close>.
  The component passes both through the spread under their own names and maps neither:
  a callback given as \<^verbatim>\<open>afterVisibleChange\<close> reaches the popup primitive's
  \<^verbatim>\<open>afterVisibleChange\<close>, the same callback given as \<^verbatim>\<open>afterOpenChange\<close> does
  not. The other three pairs are resolved by the component (\<open>merged_value\<close>,
  \<open>merged_defaultValue\<close>, \<open>Tooltip_onOpenChange\<close>).
\<close>

theorem C6_afterOpenChange_not_forwarded:
  "rc_afterVisibleChange (Tooltip sample_env sample_ctx
      (bare_props\<lparr>title := Val (Str ''hi''), afterVisibleChange := Some 7\<rparr>) None False) = Some 7 \<and>
   rc_afterVisibleChange (Tooltip sample_env sample_ctx
      (bare_props\<lparr>title := Val (Str ''hi''), afterOpenChange := Some 7\<rparr>) None False) = None"
  by (simp add: rc_afterVisibleChange_def Tooltip_def Let_def bare_props_def)

text \<open>
  For the other three pairs the legacy member alone resolves as the modern member
  alone does. With neither \<^verbatim>\<open>open\<close> nor \<^verbatim>\<open>visible\<close> in the props, adding the value
  under either name gives the same open state in a render and at mount; the same holds
  for a default under \<^verbatim>\<open>defaultVisible\<close> or \<^verbatim>\<open>defaultOpen\<close>; and a callback
  under \<^verbatim>\<open>onVisibleChange\<close> or \<^verbatim>\<open>onOpenChange\<close> receives the same calls.
\<close>

theorem legacy_alias_same_resolution:
  "(open_prop p = Absent \<and> visible p = Absent \<longrightarrow>
      tempOpen (p\<lparr>visible := Present v\<rparr>) i = tempOpen (p\<lparr>open_prop := Present v\<rparr>) i \<and>
      Tooltip_mount (p\<lparr>visible := Present v\<rparr>) = Tooltip_mount (p\<lparr>open_prop := Present v\<rparr>)) \<and>
   (defaultOpen p = None \<and> defaultVisible p = None \<longrightarrow>
      Tooltip_mount (p\<lparr>defaultVisible := d\<rparr>) = Tooltip_mount (p\<lparr>defaultOpen := d\<rparr>)) \<and>
   (onOpenChange p = None \<and> onVisibleChange p = None \<longrightarrow>
      Tooltip_onOpenChange (p\<lparr>onVisibleChange := f\<rparr>) vis =
      Tooltip_onOpenChange (p\<lparr>onOpenChange := f\<rparr>) vis)"
  by (simp add: tempOpen_def Tooltip_open_def Tooltip_mount_def merged_value_def
      merged_defaultValue_def isNoTitle_def Tooltip_onOpenChange_def)

theorem legacy_alias_same_resolution_witness:
  "tempOpen (bare_props\<lparr>visible := Present (Some True)\<rparr>) False = True \<and>
   tempOpen (bare_props\<lparr>open_prop := Present (Some True)\<rparr>) False = True \<and>
   Tooltip_mount (bare_props\<lparr>defaultVisible := Some True\<rparr>) = True \<and>
   Tooltip_mount (bare_props\<lparr>defaultOpen := Some True\<rparr>) = True \<and>
   Tooltip_onOpenChange (bare_props\<lparr>title := Val (Str ''hi''), onVisibleChange := Some 3\<rparr>) True
     = (True, [Call 3 True]) \<and>
   Tooltip_onOpenChange (bare_props\<lparr>title := Val (Str ''hi''), onOpenChange := Some 3\<rparr>) True
     = (True, [Call 3 True])"
proof -
  have a: "tempOpen (bare_props\<lparr>open_prop := Present (Some True)\<rparr>) False = True"
    and b: "Tooltip_mount (bare_props\<lparr>defaultOpen := Some True\<rparr>) = True"
    and c: "Tooltip_onOpenChange (bare_props\<lparr>title := Val (Str ''hi''), onOpenChange := Some 3\<rparr>) True
       = (True, [Call 3 True])"
    by (simp_all add: tempOpen_def Tooltip_open_def Tooltip_mount_def merged_value_def
        merged_defaultValue_def isNoTitle_def Tooltip_onOpenChange_def useMergedState_def
        useMergedState_initial_def bare_props_def)
  from a b c
    legacy_alias_same_resolution [where p = bare_props and v = "Some True" and i = False
      and d = "Some True"]
    legacy_alias_same_resolution [where p = "bare_props\<lparr>title := Val (Str ''hi'')\<rparr>"
      and f = "Some 3" and vis = True]
  show ?thesis
    by (simp add: bare_props_def)
qed

subsection \<open>Disabled children\<close>

lemma fold_splitObject_step:
  "fold (splitObject_step (Some ob)) keys po =
     (\<lambda>k. if k \<in> set keys \<and> k \<in> dom ob then ob k else fst po k,
      \<lambda>k. if k \<in> set keys \<and> k \<in> dom ob then None else snd po k)"
proof (induction keys arbitrary: po)
  case Nil
  then show ?case by simp
next
  case (Cons key keys)
  show ?case
    by (simp add: Cons.IH) (auto simp add: splitObject_step_def fun_eq_iff)
qed

lemma fold_splitObject_step_None: "fold (splitObject_step None) keys po = po"
  by (induction keys) (simp_all add: splitObject_step_def)

lemma splitObject_Some:
  "splitObject (Some ob) keys =
     (\<lambda>k. if k \<in> set keys then ob k else None, \<lambda>k. if k \<in> set keys then None else ob k)"
  by (auto simp add: splitObject_def fold_splitObject_step fun_eq_iff)

lemma splitObject_None: "splitObject None keys = (Map.empty, Map.empty)"
  by (simp add: splitObject_def fold_splitObject_step_None)

text \<open>
  \<^verbatim>\<open>splitObject\<close> partitions the object: the picked part has its keys among
  those asked for, the omitted part has none of them, the two share no key, and together
  they are the object (the empty object when it is undefined).
\<close>

theorem splitObject_partition:
  "dom (fst (splitObject obj keys)) \<inter> dom (snd (splitObject obj keys)) = {} \<and>
   dom (fst (splitObject obj keys)) \<subseteq> set keys \<and>
   dom (snd (splitObject obj keys)) \<inter> set keys = {} \<and>
   fst (splitObject obj keys) ++ snd (splitObject obj keys)
     = (case obj of None \<Rightarrow> Map.empty | Some ob \<Rightarrow> ob)"
proof (cases obj)
  case None
  then show ?thesis
    by (simp add: splitObject_None)
next
  case (Some ob)
  then show ?thesis
    by (auto simp add: splitObject_Some fun_eq_iff map_add_def dom_def split: option.splits)
qed

lemma spanStyle_pointerEvents: "spanStyle e ''pointerEvents'' = None"
  by (cases "style (props_of e)")
    (simp_all add: spanStyle_def Let_def splitObject_Some splitObject_None layout_keys_def map_add_def)

lemma spanStyle_layout:
  assumes "style (props_of e) = Some ob" and "k \<in> set layout_keys" and "k \<in> dom ob"
  shows "spanStyle e k = ob k"
proof -
  have "''width'' \<notin> set layout_keys" and "''cursor'' \<notin> set layout_keys"
    by (simp_all add: layout_keys_def)
  with assms(2) have k: "k \<noteq> ''width''" "k \<noteq> ''cursor''"
    by blast+
  from assms(3) obtain v where v: "ob k = Some v"
    by blast
  have "fst (splitObject (Some ob) layout_keys) k = Some v"
    using assms(2) v by (simp add: splitObject_Some)
  then show ?thesis
    using k v assms(1) by (simp add: spanStyle_def Let_def map_add_def)
qed

lemma buttonStyle_pointerEvents: "buttonStyle e ''pointerEvents'' = Some (Str ''none'')"
  by (simp add: buttonStyle_def Let_def)

lemma buttonStyle_rest:
  assumes "style (props_of e) = Some ob" and "k \<notin> set layout_keys" and "k \<noteq> ''pointerEvents''"
  shows "buttonStyle e k = ob k"
  using assms by (simp add: buttonStyle_def Let_def splitObject_Some)

lemma buttonStyle_layout:
  assumes "k \<in> set layout_keys"
  shows "buttonStyle e k = None"
proof -
  have "''pointerEvents'' \<notin> set layout_keys"
    by (simp add: layout_keys_def)
  with assms have k: "k \<noteq> ''pointerEvents''"
    by blast
  show ?thesis
  proof (cases "style (props_of e)")
    case None
    then show ?thesis
      using k by (simp add: buttonStyle_def Let_def splitObject_None)
  next
    case (Some ob)
    then show ?thesis
      using k assms by (simp add: buttonStyle_def Let_def splitObject_Some)
  qed
qed

lemma set_layout_keys:
  "set layout_keys =
     {''position'', ''left'', ''right'', ''top'', ''bottom'', ''float'', ''display'', ''zIndex''}"
  unfolding layout_keys_def list.set by (rule refl)

lemma getDisabledCompatibleChildren_wrap:
  assumes "is_disabled_control (Element t a c)"
  shows "getDisabledCompatibleChildren E (Element t a c) pre =
     Element (Tag ''span'')
       (no_attrs\<lparr>style := Some (spanStyle (Element t a c)),
                 className := Str (classNames E
                   [CnVal (className a), CnVal (Str (pre @ ''-disabled-compatible-wrapper''))])\<rparr>)
       (Elem (Element t (a\<lparr>style := Some (buttonStyle (Element t a c)), className := Null\<rparr>) c))"
  using assms unfolding getDisabledCompatibleChildren_def by (simp add: Let_def)

lemma getDisabledCompatibleChildren_same:
  assumes "\<not> is_disabled_control e"
  shows "getDisabledCompatibleChildren E e pre = e"
  using assms unfolding getDisabledCompatibleChildren_def by simp

text \<open>
  Claim C7: a child that is a disabled button (the host tag or a component marked
  \<^verbatim>\<open>__ANT_BUTTON\<close>), a disabled or loading \<^verbatim>\<open>__ANT_SWITCH\<close>, or a disabled
  \<^verbatim>\<open>__ANT_RADIO\<close> is rendered as a span around a clone of the child. The span's style
  has no \<^verbatim>\<open>pointerEvents\<close> and has each of the eight layout keys that the child's
  style has, with the child's value; the clone's style has \<^verbatim>\<open>pointerEvents: 'none'\<close>,
  none of the eight layout keys, and every other key of the child's style unchanged.
  Any other child is returned as it is.
\<close>

theorem C7_disabled_child_wrapped:
  "((((static_ANT_BUTTON t = Bool True \<or> t = Tag ''button'') \<and> truthy (disabled a)) \<or>
     (static_ANT_SWITCH t = Bool True \<and> (truthy (disabled a) \<or> truthy (loading a))) \<or>
     (static_ANT_RADIO t = Bool True \<and> truthy (disabled a))) \<longrightarrow>
    getDisabledCompatibleChildren E (Element t a c) pre =
      Element (Tag ''span'')
        (no_attrs\<lparr>style := Some (spanStyle (Element t a c)),
                  className := Str (classNames E
                    [CnVal (className a), CnVal (Str (pre @ ''-disabled-compatible-wrapper''))])\<rparr>)
        (Elem (Element t (a\<lparr>style := Some (buttonStyle (Element t a c)), className := Null\<rparr>) c)) \<and>
    spanStyle (Element t a c) ''pointerEvents'' = None \<and>
    buttonStyle (Element t a c) ''pointerEvents'' = Some (Str ''none'') \<and>
    (k \<in> {''position'', ''left'', ''right'', ''top'', ''bottom'', ''float'', ''display'', ''zIndex''} \<longrightarrow>
       buttonStyle (Element t a c) k = None \<and>
       (style a = Some ob \<and> k \<in> dom ob \<longrightarrow> spanStyle (Element t a c) k = ob k)) \<and>
    (style a = Some ob \<and> k \<noteq> ''pointerEvents'' \<and>
       k \<notin> {''position'', ''left'', ''right'', ''top'', ''bottom'', ''float'', ''display'', ''zIndex''} \<longrightarrow>
       buttonStyle (Element t a c) k = ob k)) \<and>
   (\<not> (((static_ANT_BUTTON t = Bool True \<or> t = Tag ''button'') \<and> truthy (disabled a)) \<or>
     (static_ANT_SWITCH t = Bool True \<and> (truthy (disabled a) \<or> truthy (loading a))) \<or>
     (static_ANT_RADIO t = Bool True \<and> truthy (disabled a))) \<longrightarrow>
    getDisabledCompatibleChildren E (Element t a c) pre = Element t a c)"
  (is "(?cond \<longrightarrow> ?wrapped \<and> ?sp \<and> ?bp \<and> ?lay \<and> ?rest) \<and> (\<not> ?cond \<longrightarrow> ?same)")
proof -
  have cond: "is_disabled_control (Element t a c) = ?cond"
    by simp
  have wrapped: "?cond \<Longrightarrow> ?wrapped"
    using getDisabledCompatibleChildren_wrap [of t a c E pre] cond by blast
  have same: "\<not> ?cond \<Longrightarrow> ?same"
    using getDisabledCompatibleChildren_same [of "Element t a c" E pre] cond by blast
  have sp: ?sp
    by (rule spanStyle_pointerEvents)
  have bp: ?bp
    by (rule buttonStyle_pointerEvents)
  have lay: ?lay
    unfolding set_layout_keys [symmetric]
  proof (intro conjI impI)
    assume "k \<in> set layout_keys"
    then show "buttonStyle (Element t a c) k = None"
      by (rule buttonStyle_layout)
  next
    assume "k \<in> set layout_keys" and "style a = Some ob \<and> k \<in> dom ob"
    then show "spanStyle (Element t a c) k = ob k"
      using spanStyle_layout [of "Element t a c" ob k] by simp
  qed
  have rest: ?rest
    unfolding set_layout_keys [symmetric]
  proof (intro impI)
    assume "style a = Some ob \<and> k \<noteq> ''pointerEvents'' \<and> k \<notin> set layout_keys"
    then show "buttonStyle (Element t a c) k = ob k"
      using buttonStyle_rest [of "Element t a c" ob k] by simp
  qed
  from wrapped same sp bp lay rest show ?thesis
    by blast
qed

theorem C7_disabled_child_witness:
  "getDisabledCompatibleChildren sample_env disabled_button ''ant-tooltip'' =
     Element (Tag ''span'')
       (no_attrs\<lparr>style := Some (spanStyle disabled_button),
                 className := Str ''ant-tooltip-disabled-compatible-wrapper''\<rparr>)
       (Elem (Element (Tag ''button'')
          (no_attrs\<lparr>disabled := Bool True, style := Some (buttonStyle disabled_button),
                    className := Null\<rparr>)
          (Val (Str ''Save'')))) \<and>
   spanStyle disabled_button ''position'' = Some (Str ''absolute'') \<and>
   spanStyle disabled_button ''pointerEvents'' = None \<and>
   buttonStyle disabled_button ''position'' = None \<and>
   buttonStyle disabled_button ''color'' = Some (Str ''red'') \<and>
   buttonStyle disabled_button ''pointerEvents'' = Some (Str ''none'') \<and>
   getDisabledCompatibleChildren sample_env
     (Element (Tag ''button'') no_attrs (Val (Str ''Save''))) ''ant-tooltip''
     = Element (Tag ''button'') no_attrs (Val (Str ''Save''))"
  using C7_disabled_child_wrapped [where t = "Tag ''button''"
      and a = "no_attrs\<lparr>disabled := Bool True,
                 style := Some [''position'' \<mapsto> Str ''absolute'', ''color'' \<mapsto> Str ''red'']\<rparr>"
      and E = sample_env and c = "Val (Str ''Save'')" and pre = "''ant-tooltip''"
      and k = "''position''"
      and ob = "[''position'' \<mapsto> Str ''absolute'', ''color'' \<mapsto> Str ''red'']"]
    C7_disabled_child_wrapped [where t = "Tag ''button''"
      and a = "no_attrs\<lparr>disabled := Bool True,
                 style := Some [''position'' \<mapsto> Str ''absolute'', ''color'' \<mapsto> Str ''red'']\<rparr>"
      and E = sample_env and c = "Val (Str ''Save'')" and pre = "''ant-tooltip''"
      and k = "''color''"
      and ob = "[''position'' \<mapsto> Str ''absolute'', ''color'' \<mapsto> Str ''red'']"]
    C7_disabled_child_wrapped [where t = "Tag ''button''" and a = no_attrs
      and E = sample_env and c = "Val (Str ''Save'')" and pre = "''ant-tooltip''"]
  by (simp add: disabled_button_def no_attrs_def classNames_def classNames_tokens_def)

subsection \<open>Normalising the children\<close>

lemma isFragment_cloneElement: "isFragment (cloneElement e f) = isFragment e"
  by (cases e) simp

lemma children_element_not_fragment: "\<not> isFragment (children_element ch)"
  by (cases ch) (simp_all add: children_element_def)

lemma getDisabledCompatibleChildren_not_fragment:
  assumes "\<not> isFragment e"
  shows "\<not> isFragment (getDisabledCompatibleChildren E e pre)"
  using assms by (simp add: getDisabledCompatibleChildren_def Let_def)

lemma rc_children_Tooltip:
  "rc_children (Tooltip E ctx p r i) =
     (let pre = getPrefixCls ctx (Some ''tooltip'') (prefixCls p);
          child = getDisabledCompatibleChildren E (children_element (children p)) pre
      in if tempOpen p i
         then cloneElement child (\<lambda>a. a\<lparr>className := childCls E p pre child\<rparr>)
         else child)"
  by (simp add: Tooltip_def Let_def)

text \<open>
  Claim C10: children that are not a valid element, or that are a fragment, are wrapped
  in a span before anything else is done with them (a valid element that is not a
  fragment is taken as it is). So the element given to
  \<^verbatim>\<open>getDisabledCompatibleChildren\<close> is never a fragment, nor is the element it
  returns, on which the open class is set, nor the child rendered inside the popup
  primitive.
\<close>

theorem C10_children_wrapped_in_span:
  "(\<not> isValidElement (children p) \<longrightarrow>
      children_element (children p) = Element (Tag ''span'') no_attrs (children p)) \<and>
   (children p = Elem e \<and> isFragment e \<longrightarrow>
      children_element (children p) = Element (Tag ''span'') no_attrs (children p)) \<and>
   (children p = Elem e \<and> \<not> isFragment e \<longrightarrow> children_element (children p) = e) \<and>
   \<not> isFragment (children_element (children p)) \<and>
   \<not> isFragment (getDisabledCompatibleChildren E (children_element (children p)) pre) \<and>
   rc_children (Tooltip E ctx p r i) =
     (let pre' = getPrefixCls ctx (Some ''tooltip'') (prefixCls p);
          child = getDisabledCompatibleChildren E (children_element (children p)) pre'
      in if rc_visible (Tooltip E ctx p r i)
         then cloneElement child (\<lambda>a. a\<lparr>className := childCls E p pre' child\<rparr>)
         else child) \<and>
   \<not> isFragment (rc_children (Tooltip E ctx p r i))"
proof -
  have a: "\<not> isValidElement (children p) \<Longrightarrow>
      children_element (children p) = Element (Tag ''span'') no_attrs (children p)"
    by (cases "children p") (simp_all add: children_element_def)
  have b: "children p = Elem e \<and> isFragment e \<Longrightarrow>
      children_element (children p) = Element (Tag ''span'') no_attrs (children p)"
    by (simp add: children_element_def)
  have c: "children p = Elem e \<and> \<not> isFragment e \<Longrightarrow> children_element (children p) = e"
    by (simp add: children_element_def)
  have d: "\<not> isFragment (children_element (children p))"
    by (rule children_element_not_fragment)
  have e: "\<not> isFragment (getDisabledCompatibleChildren E (children_element (children p)) q)" for q
    using d by (rule getDisabledCompatibleChildren_not_fragment)
  have f: "rc_children (Tooltip E ctx p r i) =
     (let pre' = getPrefixCls ctx (Some ''tooltip'') (prefixCls p);
          child = getDisabledCompatibleChildren E (children_element (children p)) pre'
      in if rc_visible (Tooltip E ctx p r i)
         then cloneElement child (\<lambda>a. a\<lparr>className := childCls E p pre' child\<rparr>)
         else child)"
    by (simp add: rc_children_Tooltip rc_visible_Tooltip)
  have g: "\<not> isFragment (rc_children (Tooltip E ctx p r i))"
    using e by (simp add: rc_children_Tooltip Let_def isFragment_cloneElement)
  from a b c d e f g show ?thesis
    by blast
qed

theorem C10_children_wrapped_witness:
  "children_element (children bare_props) = Element (Tag ''span'') no_attrs (Val (Str ''hover me'')) \<and>
   children_element (children (bare_props\<lparr>children := Elem (Element Fragment no_attrs (Val Null))\<rparr>))
     = Element (Tag ''span'') no_attrs (Elem (Element Fragment no_attrs (Val Null))) \<and>
   children_element (children (bare_props\<lparr>children := Elem disabled_button\<rparr>)) = disabled_button \<and>
   rc_children (Tooltip sample_env sample_ctx bare_props None False)
     = Element (Tag ''span'') no_attrs (Val (Str ''hover me''))"
  using C10_children_wrapped_in_span [where p = bare_props and E = sample_env and ctx = sample_ctx and r = None and i = False]
    C10_children_wrapped_in_span [where p = "bare_props\<lparr>children := Elem (Element Fragment no_attrs (Val Null))\<rparr>"
      and e = "Element Fragment no_attrs (Val Null)"]
    C10_children_wrapped_in_span [where p = "bare_props\<lparr>children := Elem disabled_button\<rparr>" and e = disabled_button]
  by (simp add: bare_props_def disabled_button_def rc_visible_Tooltip tempOpen_def isNoTitle_def
      getDisabledCompatibleChildren_def Let_def)

subsection \<open>Colour\<close>

lemma rc_overlayClassName_Tooltip:
  "rc_overlayClassName (Tooltip E ctx p r i) =
     classNames E [CnVal (str_val (overlayClassName p)),
                   CnObj (overlay_class_object E ctx p (rc_prefixCls (Tooltip E ctx p r i)))]"
  by (simp add: Tooltip_def Let_def customOverlayClassName_def)

lemma rc_overlayInnerStyle_Tooltip:
  "rc_overlayInnerStyle (Tooltip E ctx p r i) = formattedOverlayInnerStyle E p"
  by (simp add: Tooltip_def Let_def)

lemma rc_arrowContent_style:
  "style (props_of (rc_arrowContent (Tooltip E ctx p r i))) = arrowContentStyle E p"
  by (simp add: Tooltip_def Let_def)

lemma cn_tokens_two_keys:
  "cn_tokens E (CnObj (AList.update k v (AList.update k' v' []))) =
     (if k' = k then (if truthy v then [k] else [])
      else (if truthy v' then [k'] else []) @ (if truthy v then [k] else []))"
  by simp

lemma color_class_token:
  assumes "color p = Some c" and "c \<noteq> []"
  shows "pre @ ''-'' @ c \<in> set (cn_tokens E (CnObj (overlay_class_object E ctx p pre)))
           \<longleftrightarrow> PresetColorRegex_test E c"
  unfolding overlay_class_object_def cn_tokens_two_keys
  using assms by (simp add: js_and_def)

lemma no_color_class_token:
  assumes "\<not> truthy (str_val (color p))"
  shows "pre @ ''-'' @ template (color p)
           \<notin> set (cn_tokens E (CnObj (overlay_class_object E ctx p pre)))"
  unfolding overlay_class_object_def cn_tokens_two_keys
  using assms by (simp add: js_and_def)

text \<open>
  Claim C8, as stated for every colour value, fails at the empty string: it matches no
  preset token, yet nothing is injected, since both branches are guarded by
  \<^verbatim>\<open>color &&\<close>.
\<close>

theorem C8_empty_color_counterexample:
  "\<not> PresetColorRegex_test sample_env [] \<and>
   rc_overlayInnerStyle (Tooltip sample_env sample_ctx (bare_props\<lparr>color := Some []\<rparr>) None False) = None \<and>
   style (props_of (rc_arrowContent
     (Tooltip sample_env sample_ctx (bare_props\<lparr>color := Some []\<rparr>) None False))) = None"
  by (simp add: rc_overlayInnerStyle_Tooltip rc_arrowContent_style formattedOverlayInnerStyle_def
      arrowContentStyle_def custom_color_def PresetColorRegex_test_def sample_env_def bare_props_def)

text \<open>
  Claim C8, amended: for every non-empty colour value, if it is a preset token, or one
  followed by \<^verbatim>\<open>-inverse\<close>, the class \<^verbatim>\<open>${prefixCls}-${color}\<close> is among the
  classes of the overlay, the inner style of the overlay is the one given and the arrow
  content has no style; if it is not, the object of conditional classes contributes no
  such class, the inner style of the overlay is the one given with \<^verbatim>\<open>background\<close>
  set to the colour, and the style of the arrow content is
  \<^verbatim>\<open>--antd-arrow-background-color\<close> set to the colour. With the colour absent or the
  empty string there is neither the class nor an injected style. The class name of the
  overlay is these classes joined by spaces.
\<close>

theorem C8_color_resolution:
  "(color p = Some c \<and> c \<noteq> [] \<and> PresetColorRegex_test E c \<longrightarrow>
      rc_prefixCls (Tooltip E ctx p r i) @ ''-'' @ c
        \<in> set (classNames_tokens E
                 [CnVal (str_val (overlayClassName p)),
                  CnObj (overlay_class_object E ctx p (rc_prefixCls (Tooltip E ctx p r i)))]) \<and>
      rc_overlayInnerStyle (Tooltip E ctx p r i) = overlayInnerStyle p \<and>
      style (props_of (rc_arrowContent (Tooltip E ctx p r i))) = None) \<and>
   (color p = Some c \<and> c \<noteq> [] \<and> \<not> PresetColorRegex_test E c \<longrightarrow>
      rc_prefixCls (Tooltip E ctx p r i) @ ''-'' @ c
        \<notin> set (cn_tokens E
                 (CnObj (overlay_class_object E ctx p (rc_prefixCls (Tooltip E ctx p r i))))) \<and>
      rc_overlayInnerStyle (Tooltip E ctx p r i) =
        Some ((case overlayInnerStyle p of None \<Rightarrow> Map.empty | Some s \<Rightarrow> s)
                (''background'' \<mapsto> Str c)) \<and>
      style (props_of (rc_arrowContent (Tooltip E ctx p r i))) =
        Some [''--antd-arrow-background-color'' \<mapsto> Str c]) \<and>
   (color p = None \<or> color p = Some [] \<longrightarrow>
      rc_prefixCls (Tooltip E ctx p r i) @ ''-'' @ template (color p)
        \<notin> set (cn_tokens E
                 (CnObj (overlay_class_object E ctx p (rc_prefixCls (Tooltip E ctx p r i))))) \<and>
      rc_overlayInnerStyle (Tooltip E ctx p r i) = overlayInnerStyle p \<and>
      style (props_of (rc_arrowContent (Tooltip E ctx p r i))) = None) \<and>
   rc_overlayClassName (Tooltip E ctx p r i) =
     join_space (classNames_tokens E
       [CnVal (str_val (overlayClassName p)),
        CnObj (overlay_class_object E ctx p (rc_prefixCls (Tooltip E ctx p r i)))])"
  (is "(?m \<longrightarrow> ?M) \<and> (?n \<longrightarrow> ?N) \<and> (?z \<longrightarrow> ?Z) \<and> ?J")
proof -
  let ?pre = "rc_prefixCls (Tooltip E ctx p r i)"
  have m: ?M if ?m
  proof -
    from that have tok: "?pre @ ''-'' @ c \<in> set (cn_tokens E (CnObj (overlay_class_object E ctx p ?pre)))"
      using color_class_token [of p c ?pre E ctx] by simp
    then have "?pre @ ''-'' @ c
        \<in> set (classNames_tokens E
                 [CnVal (str_val (overlayClassName p)), CnObj (overlay_class_object E ctx p ?pre)])"
      by (simp add: classNames_tokens_def)
    moreover from that have "rc_overlayInnerStyle (Tooltip E ctx p r i) = overlayInnerStyle p"
      by (simp add: rc_overlayInnerStyle_Tooltip formattedOverlayInnerStyle_def custom_color_def)
    moreover from that have "style (props_of (rc_arrowContent (Tooltip E ctx p r i))) = None"
      by (simp add: rc_arrowContent_style arrowContentStyle_def custom_color_def)
    ultimately show ?thesis by blast
  qed
  have n: ?N if ?n
  proof -
    from that have "?pre @ ''-'' @ c \<notin> set (cn_tokens E (CnObj (overlay_class_object E ctx p ?pre)))"
      using color_class_token [of p c ?pre E ctx] by simp
    moreover from that have "rc_overlayInnerStyle (Tooltip E ctx p r i) =
        Some ((case overlayInnerStyle p of None \<Rightarrow> Map.empty | Some s \<Rightarrow> s)
                (''background'' \<mapsto> Str c))"
      by (simp add: rc_overlayInnerStyle_Tooltip formattedOverlayInnerStyle_def custom_color_def)
    moreover from that have "style (props_of (rc_arrowContent (Tooltip E ctx p r i))) =
        Some [''--antd-arrow-background-color'' \<mapsto> Str c]"
      by (simp add: rc_arrowContent_style arrowContentStyle_def custom_color_def)
    ultimately show ?thesis by blast
  qed
  have z: ?Z if ?z
  proof -
    from that have "\<not> truthy (str_val (color p))"
      by auto
    then have "\<not> custom_color E p"
      by (simp add: custom_color_def)
    then have "rc_overlayInnerStyle (Tooltip E ctx p r i) = overlayInnerStyle p"
      and "style (props_of (rc_arrowContent (Tooltip E ctx p r i))) = None"
      by (simp_all add: rc_overlayInnerStyle_Tooltip formattedOverlayInnerStyle_def
          rc_arrowContent_style arrowContentStyle_def)
    moreover from \<open>\<not> truthy (str_val (color p))\<close>
    have "?pre @ ''-'' @ template (color p)
        \<notin> set (cn_tokens E (CnObj (overlay_class_object E ctx p ?pre)))"
      by (rule no_color_class_token)
    ultimately show ?thesis
      by blast
  qed
  have j: ?J
    by (simp add: rc_overlayClassName_Tooltip classNames_def)
  from m n z j show ?thesis
    by blast
qed

theorem C8_color_resolution_witness:
  "rc_overlayClassName (Tooltip sample_env sample_ctx (bare_props\<lparr>color := Some ''blue''\<rparr>) None False)
     = ''ant-tooltip-blue'' \<and>
   rc_overlayInnerStyle (Tooltip sample_env sample_ctx (bare_props\<lparr>color := Some ''blue''\<rparr>) None False)
     = None \<and>
   rc_overlayClassName (Tooltip sample_env sample_ctx (bare_props\<lparr>color := Some ''#123456''\<rparr>) None False)
     = [] \<and>
   rc_overlayInnerStyle (Tooltip sample_env sample_ctx (bare_props\<lparr>color := Some ''#123456''\<rparr>) None False)
     = Some [''background'' \<mapsto> Str ''#123456''] \<and>
   style (props_of (rc_arrowContent
     (Tooltip sample_env sample_ctx (bare_props\<lparr>color := Some ''#123456''\<rparr>) None False)))
     = Some [''--antd-arrow-background-color'' \<mapsto> Str ''#123456''] \<and>
   rc_overlayInnerStyle (Tooltip sample_env sample_ctx (bare_props\<lparr>color := Some []\<rparr>) None False)
     = None"
proof -
  have pre: "rc_prefixCls (Tooltip sample_env sample_ctx q None False) = ''ant-tooltip''"
    if "prefixCls q = None" for q
    using that by (simp add: Tooltip_def Let_def sample_ctx_def)
  have dir: "direction sample_ctx = None"
    by (simp add: sample_ctx_def)
  have blue: "PresetColorRegex_test sample_env ''blue''"
    by (simp add: PresetColorRegex_test_def sample_env_def)
  have hex: "\<not> PresetColorRegex_test sample_env ''#123456''"
    by (simp add: PresetColorRegex_test_def sample_env_def)
  show ?thesis
    using C8_color_resolution [where p = "bare_props\<lparr>color := Some ''blue''\<rparr>" and c = "''blue''"
        and E = sample_env and ctx = sample_ctx and r = None and i = False]
      C8_color_resolution [where p = "bare_props\<lparr>color := Some ''#123456''\<rparr>" and c = "''#123456''"
        and E = sample_env and ctx = sample_ctx and r = None and i = False]
      C8_color_resolution [where p = "bare_props\<lparr>color := Some []\<rparr>" and c = "[]"
        and E = sample_env and ctx = sample_ctx and r = None and i = False]
      blue hex
    by (simp add: bare_props_def pre dir classNames_tokens_def overlay_class_object_def js_and_def)
qed

subsection \<open>The transform origin\<close>







end
